theory Spec2Isabelle
  imports Complex_Main
begin

section \<open>Data model (types.ts)\<close>

text \<open>
  JavaScript numbers are modelled by exact numbers: second values (segment bounds, trim
  range, minimum silence duration) are rationals, as every finite double is; samples and
  the decibel threshold are reals, because the classifier takes a square root and a real
  power. Rounding of the floating-point operations, NaN and the infinities are outside the
  model. The field \<open>end\<close> of the source is called \<open>end_time\<close> here.
\<close>

record AudioSegment =
  start :: rat
  end_time :: rat
  isSilent :: bool

text \<open>The part of the Web Audio buffer that \<open>detectSilence\<close> reads:
  \<open>getChannelData(0)\<close> and \<open>sampleRate\<close> (an integer number of Hz).\<close>

record AudioBuffer =
  channelData :: "real list"
  sampleRate :: nat

section \<open>detectSilence (utils/audioAnalysis.ts)\<close>

text \<open>The mutable variables of the window loop.\<close>

record loop_state =
  isCurrentlySilent :: bool
  segmentStart :: rat
  segments :: "AudioSegment list"

text \<open>\<open>Math.floor(sampleRate * 0.05)\<close>, exact on an integer sample rate.\<close>

definition windowSize :: "nat \<Rightarrow> nat" where
  "windowSize sr = sr div 20"

text \<open>The inner loop over \<open>j\<close> and the square root of the mean:
  \<open>Math.sqrt(sum / (end - i))\<close>. It is only called with \<open>e \<le> length rawData\<close>.\<close>

definition window_rms :: "real list \<Rightarrow> nat \<Rightarrow> nat \<Rightarrow> real" where
  "window_rms rawData i e =
     sqrt ((\<Sum>j\<leftarrow>[i..<e]. rawData ! j * rawData ! j) / real (e - i))"

text \<open>The rest of the loop body, from \<open>currentTime\<close> on, given the frame's class.\<close>

definition run_update :: "nat \<Rightarrow> nat \<Rightarrow> bool \<Rightarrow> loop_state \<Rightarrow> loop_state" where
  "run_update sr i isSilentFrame st =
     (let currentTime = of_nat i / of_nat sr;
          st1 = (if i = 0 then st\<lparr>isCurrentlySilent := isSilentFrame, segmentStart := 0\<rparr>
                 else st)
      in if isSilentFrame \<noteq> isCurrentlySilent st1
         then st1\<lparr>segments := segments st1 @
                     [\<lparr>start = segmentStart st1, end_time = currentTime,
                       isSilent = isCurrentlySilent st1\<rparr>],
                  isCurrentlySilent := isSilentFrame,
                  segmentStart := currentTime\<rparr>
         else st1)"

definition window_step ::
  "real list \<Rightarrow> nat \<Rightarrow> real \<Rightarrow> nat \<Rightarrow> nat \<Rightarrow> loop_state \<Rightarrow> loop_state" where
  "window_step rawData sr threshold ws i st =
     (let e = min (i + ws) (length rawData);
          rms = window_rms rawData i e;
          isSilentFrame = (rms < threshold)
      in run_update sr i isSilentFrame st)"

text \<open>\<open>for (let i = 0; i < samples; i += windowSize)\<close>. The loop does not advance when
  \<open>windowSize\<close> is 0, so it is a partial function: \<open>None\<close> is "does not return".\<close>

partial_function (option) window_loop ::
  "real list \<Rightarrow> nat \<Rightarrow> real \<Rightarrow> nat \<Rightarrow> nat \<Rightarrow> loop_state \<Rightarrow> loop_state option" where
  "window_loop rawData sr threshold ws i st =
     (if i < length rawData
      then window_loop rawData sr threshold ws (i + ws) (window_step rawData sr threshold ws i st)
      else Some st)"

text \<open>The gate-and-merge loop over \<open>segments\<close>, with \<open>mergedSegments\<close> as accumulator.
  The source mutates the segment objects in place; each object is read at one index only
  and written after that only through \<open>mergedSegments\<close>, so values model it.\<close>

fun merge_loop :: "rat \<Rightarrow> AudioSegment list \<Rightarrow> AudioSegment list \<Rightarrow> AudioSegment list" where
  "merge_loop minSilenceDuration [] mergedSegments = mergedSegments"
| "merge_loop minSilenceDuration (seg0 # rest) mergedSegments =
     (let seg = (if isSilent seg0 \<and> end_time seg0 - start seg0 < minSilenceDuration
                 then seg0\<lparr>isSilent := False\<rparr> else seg0)
      in if mergedSegments \<noteq> [] \<and> isSilent (last mergedSegments) = isSilent seg
         then merge_loop minSilenceDuration rest
                (butlast mergedSegments @ [(last mergedSegments)\<lparr>end_time := end_time seg\<rparr>])
         else merge_loop minSilenceDuration rest (mergedSegments @ [seg]))"

text \<open>\<open>detectSilence\<close>; \<open>None\<close> when the window loop does not return. A time is a
  quotient by the sample rate: with a sample rate of 0 JavaScript gives \<open>NaN\<close> or
  \<open>Infinity\<close> where HOL gives 0, so statements about the times returned take a positive
  sample rate.\<close>

definition detectSilence :: "AudioBuffer \<Rightarrow> real \<Rightarrow> rat \<Rightarrow> AudioSegment list option" where
  "detectSilence audioBuffer thresholdDb minSilenceDuration =
     (let rawData = channelData audioBuffer;
          samples = length rawData;
          sr = sampleRate audioBuffer;
          threshold = 10 powr (thresholdDb / 20)
      in case window_loop rawData sr threshold (windowSize sr) 0
                \<lparr>isCurrentlySilent = False, segmentStart = 0, segments = []\<rparr> of
           None \<Rightarrow> None
         | Some st \<Rightarrow>
             Some (merge_loop minSilenceDuration
                     (segments st @
                        [\<lparr>start = segmentStart st, end_time = of_nat samples / of_nat sr,
                          isSilent = isCurrentlySilent st\<rparr>]) []))"

section \<open>Properties of a timeline\<close>

text \<open>Each segment's end is the next segment's start.\<close>

fun contiguous :: "AudioSegment list \<Rightarrow> bool" where
  "contiguous (a # b # rest) = (end_time a = start b \<and> contiguous (b # rest))"
| "contiguous _ = True"

text \<open>No two adjacent segments have the same \<open>isSilent\<close>.\<close>

fun alternating :: "AudioSegment list \<Rightarrow> bool" where
  "alternating (a # b # rest) = (isSilent a \<noteq> isSilent b \<and> alternating (b # rest))"
| "alternating _ = True"

text \<open>The list covers \<open>[0, totalDuration)\<close>: it starts at 0, ends at \<open>totalDuration\<close>, has no gap and no
  overlap, and no segment runs backwards.\<close>

definition partitions :: "AudioSegment list \<Rightarrow> rat \<Rightarrow> bool" where
  "partitions segs totalDuration =
     (segs \<noteq> [] \<and> start (hd segs) = 0 \<and> end_time (last segs) = totalDuration \<and> contiguous segs \<and>
      list_all (\<lambda>s. start s \<le> end_time s) segs)"

text \<open>Every silent segment lasts at least \<open>minSilenceDuration\<close>.\<close>

definition gated :: "rat \<Rightarrow> AudioSegment list \<Rightarrow> bool" where
  "gated minSilenceDuration segs =
     list_all (\<lambda>s. isSilent s \<longrightarrow> minSilenceDuration \<le> end_time s - start s) segs"

text \<open>Proof device: the segments lead from time \<open>a\<close> to time \<open>b\<close> without gap.\<close>

fun chain :: "rat \<Rightarrow> AudioSegment list \<Rightarrow> rat \<Rightarrow> bool" where
  "chain a [] b = (a = b)"
| "chain a (s # ss) b = (start s = a \<and> a \<le> end_time s \<and> chain (end_time s) ss b)"

text \<open>Proof device: the invariant of the window loop before the iteration at sample \<open>i\<close>
  of a buffer of \<open>n\<close> samples.\<close>

definition loop_inv :: "nat \<Rightarrow> nat \<Rightarrow> nat \<Rightarrow> loop_state \<Rightarrow> bool" where
  "loop_inv sr n i st \<longleftrightarrow>
     chain 0 (segments st) (segmentStart st) \<and>
     segmentStart st \<le> of_nat (min i n) / of_nat sr \<and>
     (i = 0 \<longrightarrow> segments st = [])"

section \<open>The windowed classifier as the specification words it\<close>

text \<open>These definitions follow the words of the specification, to be compared with the
  loop of the source: the buffer cut into windows of \<open>n\<close> samples, the last one shorter
  when the length is not a multiple of \<open>n\<close>.\<close>

function spec_windows :: "nat \<Rightarrow> 'a list \<Rightarrow> 'a list list" where
  "spec_windows n xs =
     (if n = 0 \<or> xs = [] then [] else take n xs # spec_windows n (drop n xs))"
  by pat_completeness auto
termination
  by (relation "measure (\<lambda>(n, xs). length xs)") auto

declare spec_windows.simps [simp del]

text \<open>\<open>sqrt(mean(sample^2))\<close> of one window.\<close>

definition spec_rms :: "real list \<Rightarrow> real" where
  "spec_rms w = sqrt (sum_list (map (\<lambda>x. x * x) w) / real (length w))"

text \<open>\<open>round(sampleRate * 0.05)\<close>, the window length the specification names.\<close>

definition spec_windowSize :: "nat \<Rightarrow> nat" where
  "spec_windowSize sr = nat (round (of_nat sr * (5 / 100) :: rat))"

text \<open>The detector over windows of \<open>ws\<close> samples: window \<open>k\<close> starts at sample \<open>k * ws\<close>,
  is silent iff its RMS is strictly below \<open>10 ^ (thresholdDb / 20)\<close>, and feeds the run
  walk and the gate-and-merge pass of the source.\<close>

definition windowed_detect :: "nat \<Rightarrow> AudioBuffer \<Rightarrow> real \<Rightarrow> rat \<Rightarrow> AudioSegment list" where
  "windowed_detect ws audioBuffer thresholdDb minSilenceDuration =
     (let rawData = channelData audioBuffer;
          sr = sampleRate audioBuffer;
          threshold = 10 powr (thresholdDb / 20);
          st = foldl (\<lambda>st (k, w). run_update sr (k * ws) (spec_rms w < threshold) st)
                 \<lparr>isCurrentlySilent = False, segmentStart = 0, segments = []\<rparr>
                 (enumerate 0 (spec_windows ws rawData))
      in merge_loop minSilenceDuration
           (segments st @
              [\<lparr>start = segmentStart st, end_time = of_nat (length rawData) / of_nat sr,
                isSilent = isCurrentlySilent st\<rparr>]) [])"

section \<open>Trim filter and final duration\<close>

text \<open>The \<open>config\<close> argument of \<open>generateFfmpegScript\<close>. The export format is the string
  the source interpolates into the script; \<open>bgMusicName\<close> is optional.\<close>

record ScriptConfig =
  format :: string
  trimStart :: rat
  trimEnd :: rat
  bgMusicName :: "string option"

text \<open>\<open>activeSegments\<close> of \<open>generateFfmpegScript\<close>: the filter, then the clamping map.\<close>

definition activeSegments :: "AudioSegment list \<Rightarrow> ScriptConfig \<Rightarrow> AudioSegment list" where
  "activeSegments segs config =
     map (\<lambda>s. \<lparr>start = max (start s) (trimStart config),
               end_time = min (end_time s) (trimEnd config),
               isSilent = False\<rparr>)
       (filter (\<lambda>s. if isSilent s then False
                    else if end_time s < trimStart config \<or> start s > trimEnd config then False
                    else True) segs)"

text \<open>The body of the \<open>forEach\<close> in \<open>calculateFinalDuration\<close> (App), on the running
  \<open>dur\<close>.\<close>

definition addActive :: "rat \<Rightarrow> rat \<Rightarrow> rat \<Rightarrow> AudioSegment \<Rightarrow> rat" where
  "addActive tStart tEnd dur s =
     (if isSilent s then dur
      else if end_time s < tStart \<or> start s > tEnd then dur
      else (let start' = max (start s) tStart;
                end' = min (end_time s) tEnd
            in if end' > start' then dur + (end' - start') else dur))"

text \<open>\<open>calculateFinalDuration\<close>: the value it passes to \<open>setFinalDuration\<close>.\<close>

definition calculateFinalDuration :: "AudioSegment list \<Rightarrow> rat \<Rightarrow> rat \<Rightarrow> rat" where
  "calculateFinalDuration segs tStart tEnd = foldl (addActive tStart tEnd) 0 segs"

section \<open>generateFfmpegScript (utils/audioAnalysis.ts)\<close>

text \<open>Strings are lists of 8-bit characters: the model covers file names whose UTF-16
  code units are below 256. The characters that cannot stand in a string literal here are
  named.\<close>

definition dquote :: char where "dquote = CHR 0x22"
definition squote :: char where "squote = CHR 0x27"
definition backslash :: char where "backslash = CHR 0x5C"
definition backtick :: char where "backtick = CHR 0x60"
definition newline :: char where "newline = CHR 0x0A"

datatype platform = Win | Unix

text \<open>\<open>escapeName\<close>: on \<open>unix\<close>, \<open>name.replace(/(["\\$`])/g, '\\$1')\<close>; otherwise the name
  as it is.\<close>

definition escapeName :: "string \<Rightarrow> platform \<Rightarrow> string" where
  "escapeName name p =
     (if p = Unix
      then concat (map (\<lambda>c. if c \<in> set [dquote, backslash, CHR ''$'', backtick]
                              then [backslash, c] else [c]) name)
      else name)"

text \<open>The class \<open>\s\<close> of JavaScript regular expressions, on code units below 256: TAB, LF,
  VT, FF, CR, space and the no-break space.\<close>

definition isWhitespace :: "char \<Rightarrow> bool" where
  "isWhitespace c = (c \<in> set [CHR 0x09, CHR 0x0A, CHR 0x0B, CHR 0x0C, CHR 0x0D, CHR 0x20, CHR 0xA0])"

text \<open>\<open>replace(/\s+/g, '_')\<close>: every maximal run of whitespace becomes one underscore.\<close>

function collapseWhitespace :: "string \<Rightarrow> string" where
  "collapseWhitespace [] = []"
| "collapseWhitespace (c # cs) =
     (if isWhitespace c then CHR ''_'' # collapseWhitespace (dropWhile isWhitespace cs)
      else c # collapseWhitespace cs)"
  by pat_completeness auto
termination
  by (relation "measure length") (auto simp: less_Suc_eq_le length_dropWhile_le)

text \<open>\<open>replace(/\.[^/.]+$/, "")\<close>: the only possible match starts at the last dot, and
  needs at least one character after it and no slash there.\<close>

definition stripExtension :: "string \<Rightarrow> string" where
  "stripExtension s =
     (let suffix = rev (takeWhile (\<lambda>c. c \<noteq> CHR ''.'') (rev s))
      in if length suffix < length s \<and> suffix \<noteq> [] \<and> CHR ''/'' \<notin> set suffix
         then take (length s - length suffix - 1) s
         else s)"

text \<open>\<open>String(index)\<close> for a non-negative integer, and \<open>padStart(4, '0')\<close>.\<close>

fun natToString :: "nat \<Rightarrow> string" where
  "natToString n =
     (if n < 10 then [''0123456789'' ! n]
      else natToString (n div 10) @ [''0123456789'' ! (n mod 10)])"

declare natToString.simps [simp del]

definition padStart4 :: "string \<Rightarrow> string" where
  "padStart4 s = replicate (4 - length s) CHR ''0'' @ s"

text \<open>\<open>x.toFixed(4)\<close> on a finite number below \<open>10^21\<close> in absolute value (above it
  JavaScript switches to exponent notation, which is not modelled): the sign, then the
  integer \<open>n\<close> nearest to \<open>|x| * 10^4\<close>, the larger one on a tie, written with at least five
  digits and a point before the last four.\<close>

definition toFixed4 :: "rat \<Rightarrow> string" where
  "toFixed4 x =
     (let n = nat \<lfloor>\<bar>x\<bar> * 10000 + 1 / 2\<rfloor>;
          m = natToString n;
          m = replicate (5 - length m) CHR ''0'' @ m
      in (if x < 0 then ''-'' else '''') @
         take (length m - 4) m @ ''.'' @ drop (length m - 4) m)"

text \<open>JavaScript truthiness of the optional \<open>bgMusicName\<close>: \<open>undefined\<close> and the empty
  string are false.\<close>

definition hasBgMusic :: "ScriptConfig \<Rightarrow> bool" where
  "hasBgMusic config = (case bgMusicName config of None \<Rightarrow> False | Some n \<Rightarrow> n \<noteq> [])"

definition isAudioOnlyFormat :: "string \<Rightarrow> bool" where
  "isAudioOnlyFormat ext = (ext \<in> set [''mp3'', ''wav'', ''aac''])"

text \<open>The codec selection block: \<open>(videoCodec, audioCodec)\<close> after the assignments.\<close>

definition codecSelection :: "string \<Rightarrow> string \<times> string" where
  "codecSelection ext =
     (let videoCodec = ''libx264'';
          audioCodec = ''aac''
      in if isAudioOnlyFormat ext
         then (let videoCodec = ''null'';
                   audioCodec = (if ext = ''mp3'' then ''libmp3lame'' else audioCodec);
                   audioCodec = (if ext = ''wav'' then ''pcm_s16le'' else audioCodec)
               in (videoCodec, audioCodec))
         else (let videoCodec = (if ext = ''avi'' then ''mpeg4'' else videoCodec);
                   videoCodec = (if ext = ''mov'' then ''libx264'' else videoCodec)
               in (videoCodec, audioCodec)))"

text \<open>\<open>segName\<close> of the extract commands, the same expression in both dialects.\<close>

definition segName :: "string \<Rightarrow> nat \<Rightarrow> string" where
  "segName ext index =
     ''part_'' @ padStart4 (natToString index) @ ''.'' @
     (if isAudioOnlyFormat ext then ext else ''mp4'')"

text \<open>The extract command appended to the script for one active segment; the two
  dialects differ in the input name and the segment directory they pass.\<close>

definition extractCommand :: "string \<Rightarrow> string \<Rightarrow> string \<Rightarrow> AudioSegment \<Rightarrow> nat \<Rightarrow> string" where
  "extractCommand input segmentDir ext seg index =
     (let duration = toFixed4 (end_time seg - start seg);
          start = toFixed4 (start seg);
          cmdVideo = (if isAudioOnlyFormat ext then ''-vn''
                      else ''-c:v '' @ fst (codecSelection ext) @ '' -preset ultrafast'')
      in ''ffmpeg -y -i '' @ [dquote] @ input @ [dquote] @ '' -ss '' @ start @
         '' -t '' @ duration @ '' '' @ cmdVideo @ '' -c:a '' @ snd (codecSelection ext) @
         '' '' @ [dquote] @ segmentDir @ segName ext index @ [dquote] @ [newline])"

text \<open>The line added to \<open>fileList\<close> for one active segment: the \<open>unix\<close> branch writes
  \<open>segName\<close>, the \<open>win\<close> branch writes the index with the extension \<open>.mp4\<close>.\<close>

definition fileListEntry :: "platform \<Rightarrow> string \<Rightarrow> nat \<Rightarrow> string" where
  "fileListEntry p ext index =
     (if p = Unix then ''file '' @ [squote] @ segName ext index @ [squote] @ [newline]
      else ''file '' @ [squote] @ ''part_'' @ padStart4 (natToString index) @ ''.mp4'' @
           [squote] @ [newline])"

text \<open>\<open>fileList.split('\n')\<close>\<close>

fun splitLines :: "string \<Rightarrow> string list" where
  "splitLines [] = [[]]"
| "splitLines (c # cs) =
     (if c = newline then [] # splitLines cs
      else (case splitLines cs of l # ls \<Rightarrow> (c # l) # ls | [] \<Rightarrow> [[c]]))"

definition generateFfmpegScript ::
  "AudioSegment list \<Rightarrow> string \<Rightarrow> platform \<Rightarrow> ScriptConfig \<Rightarrow> string" where
  "generateFfmpegScript segs filename p config =
     (let active = activeSegments segs config;
          safeName = stripExtension (collapseWhitespace filename);
          inputFilename = (if p = Unix then escapeName filename Unix else filename);
          bgName = (case bgMusicName config of None \<Rightarrow> [] | Some n \<Rightarrow> n);
          bgMusicFilename = (if hasBgMusic config
                             then (if p = Unix then escapeName bgName Unix else bgName)
                             else []);
          ext = format config;
          isAudioOnly = isAudioOnlyFormat ext;
          outputName = safeName @ ''_edited.'' @ ext;
          audioCodec = snd (codecSelection ext);
          concatFile = (if p = Win then ''segments'' @ [backslash] @ ''list.txt''
                        else ''segments/list.txt'');
          segmentDir = (if p = Win then ''segments'' @ [backslash] else ''segments/'');
          fileList = concat (map (\<lambda>(index, seg). fileListEntry p ext index)
                               (enumerate 0 active))
      in if p = Unix then
           ''#!/bin/bash'' @ [newline, newline] @
           ''# Process '' @ filename @ '' to '' @ outputName @ [newline] @
           ''mkdir -p segments'' @ [newline] @
           ''echo '' @ [dquote] @ ''Extracting valid segments...'' @ [dquote] @
             [newline, newline] @
           concat (map (\<lambda>(index, seg). extractCommand inputFilename segmentDir ext seg index)
                     (enumerate 0 active)) @
           [newline] @ ''echo '' @ [dquote] @ fileList @ [dquote] @ '' > '' @ concatFile @
             [newline, newline] @
           ''echo '' @ [dquote] @ ''Concatenating...'' @ [dquote] @ [newline] @
           (if hasBgMusic config then
              ''ffmpeg -y -f concat -safe 0 -i '' @ concatFile @ '' -c copy '' @ [dquote] @
                ''segments/temp_concat.'' @ ext @ [dquote] @ [newline] @
              ''echo '' @ [dquote] @ ''Adding background music (Main 100%, BG 20%)...'' @
                [dquote] @ [newline] @
              (if \<not> isAudioOnly then
                 ''ffmpeg -y -i '' @ [dquote] @ ''segments/temp_concat.'' @ ext @ [dquote] @
                   '' -i '' @ [dquote] @ bgMusicFilename @ [dquote] @ '' -filter_complex '' @
                   [dquote] @ ''[0:a][1:a]amix=inputs=2:duration=first:weights=1 0.2[a]'' @
                   [dquote] @ '' -map 0:v -map '' @ [dquote] @ ''[a]'' @ [dquote] @
                   '' -c:v copy -c:a '' @ audioCodec @ '' '' @ [dquote] @ outputName @
                   [dquote] @ [newline]
               else
                 ''ffmpeg -y -i '' @ [dquote] @ ''segments/temp_concat.'' @ ext @ [dquote] @
                   '' -i '' @ [dquote] @ bgMusicFilename @ [dquote] @ '' -filter_complex '' @
                   [dquote] @ ''amix=inputs=2:duration=first:weights=1 0.2'' @ [dquote] @
                   '' -c:a '' @ audioCodec @ '' '' @ [dquote] @ outputName @ [dquote] @
                   [newline]) @
              ''rm '' @ [dquote] @ ''segments/temp_concat.'' @ ext @ [dquote] @ [newline]
            else
              ''ffmpeg -y -f concat -safe 0 -i '' @ concatFile @ '' -c copy '' @ [dquote] @
                outputName @ [dquote] @ [newline]) @
           [newline] @ ''echo '' @ [dquote] @ ''Done! Saved to '' @ outputName @ [dquote] @
             [newline] @
           ''rm -rf segments'' @ [newline]
         else
           ''@echo off'' @ [newline] @
           ''REM Process '' @ filename @ '' to '' @ outputName @ [newline] @
           ''mkdir segments'' @ [newline] @
           ''echo Extracting valid segments...'' @ [newline, newline] @
           concat (map (\<lambda>(index, seg). extractCommand filename segmentDir ext seg index)
                     (enumerate 0 active)) @
           [newline] @ ''( '' @ [newline] @
           concat (map (\<lambda>line. if line \<noteq> [] then ''echo '' @ line @ [newline] else [])
                     (splitLines fileList)) @
           '') > '' @ concatFile @ [newline, newline] @
           ''echo Concatenating...'' @ [newline] @
           (if hasBgMusic config then
              ''ffmpeg -y -f concat -safe 0 -i '' @ concatFile @ '' -c copy '' @ [dquote] @
                ''segments'' @ [backslash] @ ''temp_concat.'' @ ext @ [dquote] @ [newline] @
              ''echo Adding background music (Main 100%%, BG 20%%)...'' @ [newline] @
              (if \<not> isAudioOnly then
                 ''ffmpeg -y -i '' @ [dquote] @ ''segments'' @ [backslash] @ ''temp_concat.'' @
                   ext @ [dquote] @ '' -i '' @ [dquote] @ bgName @ [dquote] @
                   '' -filter_complex '' @ [dquote] @
                   ''[0:a][1:a]amix=inputs=2:duration=first:weights=1 0.2[a]'' @ [dquote] @
                   '' -map 0:v -map '' @ [dquote] @ ''[a]'' @ [dquote] @
                   '' -c:v copy -c:a '' @ audioCodec @ '' '' @ [dquote] @ outputName @
                   [dquote] @ [newline]
               else
                 ''ffmpeg -y -i '' @ [dquote] @ ''segments'' @ [backslash] @ ''temp_concat.'' @
                   ext @ [dquote] @ '' -i '' @ [dquote] @ bgName @ [dquote] @
                   '' -filter_complex '' @ [dquote] @
                   ''amix=inputs=2:duration=first:weights=1 0.2'' @ [dquote] @
                   '' -c:a '' @ audioCodec @ '' '' @ [dquote] @ outputName @ [dquote] @
                   [newline]) @
              ''del '' @ [dquote] @ ''segments'' @ [backslash] @ ''temp_concat.'' @ ext @
                [dquote] @ [newline]
            else
              ''ffmpeg -y -f concat -safe 0 -i '' @ concatFile @ '' -c copy '' @ [dquote] @
                outputName @ [dquote] @ [newline]) @
           ''echo Done! Saved to '' @ outputName @ [newline] @
           ''rmdir /s /q segments'' @ [newline] @
           ''pause'' @ [newline])"

section \<open>analyzeContent (services/geminiService.ts)\<close>

record AiAnalysisResult =
  title :: string
  summary :: string
  tags :: "string list"
  viralScore :: rat

text \<open>What can be thrown inside the \<open>try\<close> block: the missing API key, a failed or
  rejected request, and the \<open>SyntaxError\<close> of \<open>JSON.parse\<close>.\<close>

datatype js_error = ApiKeyNotFound | RequestFailed string | JsonSyntaxError

text \<open>The collaborators of \<open>analyzeContent\<close>, which are not code of this repository:
  the environment variable \<open>API_KEY\<close>, the remote call \<open>ai.models.generateContent\<close> (from
  key and prompt to an error or a response, whose \<open>text\<close> may be undefined), and
  \<open>JSON.parse\<close> (\<open>None\<close> is the \<open>SyntaxError\<close>). The parsed value is taken to have the
  shape of a result, as the unchecked cast of the source does.\<close>

record gemini_env =
  apiKey :: "string option"
  generateContent :: "string \<Rightarrow> string \<Rightarrow> js_error + string option"
  jsonParse :: "string \<Rightarrow> AiAnalysisResult option"

text \<open>\<open>getGeminiClient\<close>: \<open>!apiKey\<close> holds for \<open>undefined\<close> and for the empty string. The
  client is represented by its key.\<close>

definition getGeminiClient :: "gemini_env \<Rightarrow> js_error + string" where
  "getGeminiClient env =
     (case apiKey env of
        None \<Rightarrow> Inl ApiKeyNotFound
      | Some k \<Rightarrow> if k = [] then Inl ApiKeyNotFound else Inr k)"

text \<open>The prompt template; an undefined or empty \<open>context\<close> contributes nothing.\<close>

definition analysisPrompt :: "string \<Rightarrow> string option \<Rightarrow> string" where
  "analysisPrompt filename context =
     [newline] @ ''      I have a video file named '' @ [dquote] @ filename @ [dquote] @ ''.'' @
     [newline] @ ''      '' @
     (case context of None \<Rightarrow> [] | Some c \<Rightarrow> if c = [] then [] else ''Context/Link: '' @ c) @
     [newline] @ ''      '' @
     [newline] @ ''      Please generate a creative title, a short catchy summary, 3 hashtags, and a predicted viral score (0-100) for a video with this name/context.'' @
     [newline] @ ''      Assuming it'' @ [squote] @ ''s a raw recording that needs editing (silence removal).'' @
     [newline] @ ''    ''"

text \<open>The body of the \<open>try\<close> block: \<open>Inl\<close> is a thrown error or a rejected promise.\<close>

definition analyzeContent_try ::
  "gemini_env \<Rightarrow> string \<Rightarrow> string option \<Rightarrow> js_error + AiAnalysisResult" where
  "analyzeContent_try env filename context =
     (case getGeminiClient env of
        Inl e \<Rightarrow> Inl e
      | Inr ai \<Rightarrow>
          (case generateContent env ai (analysisPrompt filename context) of
             Inl e \<Rightarrow> Inl e
           | Inr response \<Rightarrow>
               (case response of
                  None \<Rightarrow> Inl JsonSyntaxError
                | Some text \<Rightarrow>
                    (case jsonParse env text of
                       None \<Rightarrow> Inl JsonSyntaxError
                     | Some result \<Rightarrow> Inr result))))"

text \<open>The object returned in the \<open>catch\<close> block.\<close>

definition fallbackResult :: AiAnalysisResult where
  "fallbackResult =
     \<lparr>title = ''Content Analysis Unavailable'',
      summary = ''Could not connect to Gemini AI. Ensure API Key is configured.'',
      tags = [''error'', ''offline''],
      viralScore = 0\<rparr>"

text \<open>\<open>analyzeContent\<close>: the outcome of the promise it returns, \<open>Inl\<close> for a rejection.\<close>

definition analyzeContent ::
  "gemini_env \<Rightarrow> string \<Rightarrow> string option \<Rightarrow> js_error + AiAnalysisResult" where
  "analyzeContent env filename context =
     (case analyzeContent_try env filename context of
        Inl error \<Rightarrow> Inr fallbackResult
      | Inr result \<Rightarrow> Inr result)"

section \<open>The window loop: termination and invariant\<close>

lemma window_loop_empty: "window_loop [] sr th ws i st = Some st"
  by (subst window_loop.simps) simp

text \<open>With a step of 0 the loop cannot return from inside the buffer.\<close>

lemma window_loop_Some_advances:
  assumes "window_loop rawData sr th ws i st = Some y"
  shows "\<not> (ws = 0 \<and> i < length rawData)"
proof (rule window_loop.raw_induct[rotated 1, OF assms])
  fix f rawData sr th ws i st y
  assume IH: "\<And>rawData sr th ws i st y. f rawData sr th ws i st = Some y \<Longrightarrow>
                \<not> (ws = (0::nat) \<and> i < length (rawData :: real list))"
    and b: "(if i < length rawData
             then f rawData sr th ws (i + ws) (window_step rawData sr th ws i st)
             else Some st) = Some y"
  show "\<not> (ws = 0 \<and> i < length rawData)"
  proof
    assume a: "ws = 0 \<and> i < length rawData"
    with b have "f rawData sr th ws (i + ws) (window_step rawData sr th ws i st) = Some y"
      by simp
    from IH[OF this] a show False by simp
  qed
qed

lemma window_loop_stuck:
  "i < length rawData \<Longrightarrow> window_loop rawData sr th 0 i st = None"
  using window_loop_Some_advances[of rawData sr th 0 i st]
  by (cases "window_loop rawData sr th 0 i st") auto

lemma chain_snoc:
  "chain a (xs @ [s]) b \<longleftrightarrow> chain a xs (start s) \<and> start s \<le> end_time s \<and> end_time s = b"
  by (induction xs arbitrary: a) auto

lemma alternating_snoc:
  "alternating (xs @ [s]) \<longleftrightarrow>
     alternating xs \<and> (xs \<noteq> [] \<longrightarrow> isSilent (last xs) \<noteq> isSilent s)"
  by (induction xs rule: alternating.induct) auto

lemma chain_contiguous: "chain a segs b \<Longrightarrow> contiguous segs"
  by (induction segs arbitrary: a rule: contiguous.induct) auto

lemma chain_forward: "chain a segs b \<Longrightarrow> list_all (\<lambda>s. start s \<le> end_time s) segs"
  by (induction segs arbitrary: a) auto

lemma chain_hd: "chain a segs b \<Longrightarrow> segs \<noteq> [] \<Longrightarrow> start (hd segs) = a"
  by (cases segs) auto

lemma chain_last: "chain a segs b \<Longrightarrow> segs \<noteq> [] \<Longrightarrow> end_time (last segs) = b"
  by (induction segs arbitrary: a) auto

lemma chain_partitions: "chain 0 segs t \<Longrightarrow> segs \<noteq> [] \<Longrightarrow> partitions segs t"
  by (simp add: partitions_def chain_contiguous chain_forward chain_hd chain_last)

lemma run_update_inv:
  assumes "loop_inv sr n i st" "i < n" "0 < ws"
  shows "loop_inv sr n (i + ws) (run_update sr i f st)"
proof -
  have le: "(of_nat i :: rat) / of_nat sr \<le> of_nat (min (i + ws) n) / of_nat sr"
    using assms(2) by (intro divide_right_mono) auto
  show ?thesis
  proof (cases "i = 0")
    case True
    then show ?thesis using assms by (simp add: loop_inv_def run_update_def Let_def)
  next
    case False
    have "min i n = i" using assms(2) by simp
    then show ?thesis using assms False le
      by (auto simp: loop_inv_def run_update_def Let_def chain_snoc)
  qed
qed

text \<open>With a positive step the loop returns, and the raw runs lead from 0 to the start
  of the open run, which lies inside the buffer.\<close>

lemma window_loop_returns:
  "0 < ws \<Longrightarrow> loop_inv sr (length rawData) i st \<Longrightarrow>
   \<exists>st'. window_loop rawData sr th ws i st = Some st' \<and>
         chain 0 (segments st') (segmentStart st') \<and>
         segmentStart st' \<le> of_nat (length rawData) / of_nat sr"
proof (induction "length rawData - i" arbitrary: i st rule: less_induct)
  case less
  show ?case
  proof (cases "i < length rawData")
    case True
    then have d: "length rawData - (i + ws) < length rawData - i"
      using less.prems by arith
    have "loop_inv sr (length rawData) (i + ws) (window_step rawData sr th ws i st)"
      using run_update_inv[OF less.prems(2) True less.prems(1)]
      by (simp add: window_step_def Let_def)
    from less.hyps[OF d less.prems(1) this] show ?thesis
      by (subst window_loop.simps) (simp add: True)
  next
    case False
    then have "min i (length rawData) = length rawData" by simp
    then show ?thesis using less.prems(2) False
      by (subst window_loop.simps) (simp add: loop_inv_def)
  qed
qed

section \<open>The gate-and-merge pass\<close>

lemma merge_loop_nonempty: "rest \<noteq> [] \<or> merged \<noteq> [] \<Longrightarrow> merge_loop m rest merged \<noteq> []"
  by (induction rest arbitrary: merged) (auto simp: Let_def)

lemma merge_loop_inv:
  "chain a merged b \<Longrightarrow> chain b rest c \<Longrightarrow> alternating merged \<Longrightarrow> gated m merged \<Longrightarrow>
   chain a (merge_loop m rest merged) c \<and> alternating (merge_loop m rest merged) \<and>
   gated m (merge_loop m rest merged)"
proof (induction rest arbitrary: merged b)
  case Nil
  then show ?case by simp
next
  case (Cons seg0 rest)
  define seg where "seg = (if isSilent seg0 \<and> end_time seg0 - start seg0 < m
                 then seg0\<lparr>isSilent := False\<rparr> else seg0)"
  have s0: "start seg = b" "b \<le> end_time seg" "chain (end_time seg) rest c"
    using Cons.prems(2) by (auto simp: seg_def)
  have g: "isSilent seg \<longrightarrow> m \<le> end_time seg - start seg"
    by (auto simp: seg_def)
  show ?case
  proof (cases "merged \<noteq> [] \<and> isSilent (last merged) = isSilent seg")
    case True
    then obtain ys l where m: "merged = ys @ [l]" by (metis rev_exhaust)
    define l' where "l' = l\<lparr>end_time := end_time seg\<rparr>"
    have l: "chain a ys (start l)" "start l \<le> end_time l" "end_time l = b"
      using Cons.prems(1) by (auto simp: m chain_snoc)
    have 1: "chain a (ys @ [l']) (end_time seg)"
      using l s0 by (simp add: chain_snoc l'_def)
    have 2: "alternating (ys @ [l'])"
      using Cons.prems(3) by (simp add: m alternating_snoc l'_def)
    have 3: "gated m (ys @ [l'])"
      using Cons.prems(4) l s0 by (auto simp: m gated_def l'_def)
    have "merge_loop m (seg0 # rest) merged = merge_loop m rest (ys @ [l'])"
      using True by (simp add: seg_def[symmetric] m l'_def)
    with Cons.IH[OF 1 s0(3) 2 3] show ?thesis by simp
  next
    case False
    have 1: "chain a (merged @ [seg]) (end_time seg)"
      using Cons.prems(1) s0 by (simp add: chain_snoc)
    have 2: "alternating (merged @ [seg])"
      using Cons.prems(3) False by (auto simp add: alternating_snoc)
    have 3: "gated m (merged @ [seg])"
      using Cons.prems(4) g by (simp add: gated_def)
    have "merge_loop m (seg0 # rest) merged = merge_loop m rest (merged @ [seg])"
      using False by (auto simp add: seg_def[symmetric])
    with Cons.IH[OF 1 s0(3) 2 3] show ?thesis by simp
  qed
qed

text \<open>Whenever the window loop returns with a well-formed run list, \<open>detectSilence\<close>
  returns a canonical timeline.\<close>

lemma detectSilence_from_loop:
  assumes "window_loop (channelData b) (sampleRate b) (10 powr (db / 20))
             (windowSize (sampleRate b)) 0
             \<lparr>isCurrentlySilent = False, segmentStart = 0, segments = []\<rparr> = Some st'"
    and "chain 0 (segments st') (segmentStart st')"
    and "segmentStart st' \<le> of_nat (length (channelData b)) / of_nat (sampleRate b)"
  shows "\<exists>segs. detectSilence b db m = Some segs \<and>
           partitions segs (of_nat (length (channelData b)) / of_nat (sampleRate b)) \<and>
           alternating segs \<and> gated m segs"
proof -
  let ?n = "length (channelData b)" and ?sr = "sampleRate b"
  let ?raw = "segments st' @ [\<lparr>start = segmentStart st', end_time = of_nat ?n / of_nat ?sr,
                          isSilent = isCurrentlySilent st'\<rparr>]"
  have raw: "chain 0 ?raw (of_nat ?n / of_nat ?sr)"
    using assms(2,3) by (simp add: chain_snoc)
  have r: "detectSilence b db m = Some (merge_loop m ?raw [])"
    using assms(1) by (simp add: detectSilence_def Let_def)
  have "chain 0 [] 0" "alternating []" "gated m []" by (simp_all add: gated_def)
  from merge_loop_inv[OF this(1) raw this(2,3)] merge_loop_nonempty[of ?raw "[]" m]
  show ?thesis unfolding r by (simp add: chain_partitions)
qed

lemma detectSilence_Nil:
  "channelData b = [] \<Longrightarrow>
   detectSilence b db m = Some [\<lparr>start = 0, end_time = 0, isSilent = False\<rparr>]"
  by (simp add: detectSilence_def window_loop_empty Let_def)

section \<open>Claims about detectSilence\<close>

text \<open>
  C1. For every sample buffer on which \<open>detectSilence\<close> runs to its end (a sample rate of
  at least 20 Hz, or an empty buffer with a positive sample rate), the returned canonical
  segment list partitions \<open>[0, sampleCount / sampleRate)\<close> with no gap and no overlap: the
  first start is 0, each segment's end is the next segment's start, the last end is
  \<open>sampleCount / sampleRate\<close>. No two adjacent segments have the same \<open>isSilent\<close>, and
  every silent segment lasts at least \<open>minSilenceDuration\<close>.
\<close>

theorem detectSilence_canonical:
  assumes "20 \<le> sampleRate b \<or> (channelData b = [] \<and> 0 < sampleRate b)"
  shows "\<exists>segs. detectSilence b db m = Some segs \<and>
           partitions segs (of_nat (length (channelData b)) / of_nat (sampleRate b)) \<and>
           alternating segs \<and> gated m segs"
proof (cases "20 \<le> sampleRate b")
  case True
  let ?init = "\<lparr>isCurrentlySilent = False, segmentStart = 0, segments = []\<rparr>"
  have ws: "0 < windowSize (sampleRate b)" using True by (simp add: windowSize_def)
  have "loop_inv (sampleRate b) (length (channelData b)) 0 ?init" by (simp add: loop_inv_def)
  from window_loop_returns[OF ws this] detectSilence_from_loop[of b db _ m]
  show ?thesis by blast
next
  case False
  with assms have e: "channelData b = []" by simp
  show ?thesis
    by (simp add: detectSilence_Nil[OF e] e partitions_def gated_def)
qed

theorem detectSilence_canonical_witness:
  "(20 \<le> sampleRate \<lparr>channelData = [0, 0, 1, 0], sampleRate = 40\<rparr> \<or>
    (channelData \<lparr>channelData = [0, 0, 1, 0], sampleRate = 40\<rparr> = [] \<and>
     0 < sampleRate \<lparr>channelData = [0, 0, 1, 0], sampleRate = 40\<rparr>)) \<and>
   (\<exists>segs. detectSilence \<lparr>channelData = [0, 0, 1, 0], sampleRate = 40\<rparr> (-40) (1/2) = Some segs \<and>
      partitions segs (4 / 40) \<and> alternating segs \<and> gated (1/2) segs)"
  using detectSilence_canonical[of "\<lparr>channelData = [0, 0, 1, 0], sampleRate = 40\<rparr>" "-40" "1/2"]
  by simp

text \<open>
  C3 (as the code has it). On an empty sample buffer \<open>detectSilence\<close> does not return the
  empty list: the final segment is pushed unconditionally, so the result is the single
  non-silent segment of length zero \<open>[0, 0)\<close>.
\<close>

theorem detectSilence_empty_buffer:
  "0 < sampleRate b \<Longrightarrow> channelData b = [] \<Longrightarrow>
   detectSilence b db m = Some [\<lparr>start = 0, end_time = 0, isSilent = False\<rparr>]"
  by (rule detectSilence_Nil)

theorem detectSilence_empty_buffer_witness:
  "0 < sampleRate \<lparr>channelData = [], sampleRate = 44100\<rparr> \<and>
   channelData \<lparr>channelData = [], sampleRate = 44100\<rparr> = [] \<and>
   detectSilence \<lparr>channelData = [], sampleRate = 44100\<rparr> (-40) (1/2) =
     Some [\<lparr>start = 0, end_time = 0, isSilent = False\<rparr>]"
  using detectSilence_empty_buffer[of "\<lparr>channelData = [], sampleRate = 44100\<rparr>" "-40" "1/2"]
  by simp

text \<open>C3 as stated fails: at 44.1 kHz the empty buffer does not give the empty list.\<close>

theorem detectSilence_empty_buffer_counterexample:
  "detectSilence \<lparr>channelData = [], sampleRate = 44100\<rparr> (-40) (1/2) \<noteq> Some []"
  by (simp add: detectSilence_Nil)

text \<open>
  C9 (as the code has it). The window loop advances by \<open>floor(sampleRate * 0.05)\<close> samples
  per iteration. \<open>detectSilence\<close> returns exactly when that step is at least 1 (a sample
  rate of at least 20) or the buffer is empty: on a non-empty buffer with a smaller sample
  rate the step is 0 and the loop never ends, on an empty buffer the loop body never runs.
\<close>

theorem detectSilence_terminates_iff:
  "((\<exists>segs. detectSilence b db m = Some segs) \<longleftrightarrow>
      (20 \<le> sampleRate b \<or> channelData b = [])) \<and>
   (1 \<le> windowSize (sampleRate b) \<longleftrightarrow> 20 \<le> sampleRate b) \<and>
   (sampleRate b < 20 \<and> channelData b \<noteq> [] \<longrightarrow> detectSilence b db m = None)"
proof -
  let ?init = "\<lparr>isCurrentlySilent = False, segmentStart = 0, segments = []\<rparr>"
  have ws: "1 \<le> windowSize (sampleRate b) \<longleftrightarrow> 20 \<le> sampleRate b"
    by (simp add: windowSize_def) arith
  show ?thesis
  proof (cases "20 \<le> sampleRate b")
    case True
    have "loop_inv (sampleRate b) (length (channelData b)) 0 ?init" by (simp add: loop_inv_def)
    with True ws
      window_loop_returns[of "windowSize (sampleRate b)" "sampleRate b" "channelData b" 0 ?init]
      detectSilence_from_loop[of b db _ m]
    have "\<exists>segs. detectSilence b db m = Some segs" by fastforce
    with True ws show ?thesis by simp
  next
    case False
    then have z: "windowSize (sampleRate b) = 0" using ws by simp
    show ?thesis
    proof (cases "channelData b = []")
      case True
      then show ?thesis using ws by (simp add: detectSilence_Nil)
    next
      case ne: False
      then have "detectSilence b db m = None"
        by (simp add: detectSilence_def z window_loop_stuck Let_def)
      with ne False ws show ?thesis by simp
    qed
  qed
qed

theorem detectSilence_terminates_iff_witness:
  "sampleRate \<lparr>channelData = [0, 1], sampleRate = 10\<rparr> < 20 \<and>
   channelData \<lparr>channelData = [0, 1], sampleRate = 10\<rparr> \<noteq> [] \<and>
   detectSilence \<lparr>channelData = [0, 1], sampleRate = 10\<rparr> (-40) (1/2) = None \<and>
   (\<exists>segs. detectSilence \<lparr>channelData = [0, 1], sampleRate = 20\<rparr> (-40) (1/2) = Some segs)"
  using detectSilence_terminates_iff[of "\<lparr>channelData = [0, 1], sampleRate = 10\<rparr>" "-40" "1/2"]
    detectSilence_terminates_iff[of "\<lparr>channelData = [0, 1], sampleRate = 20\<rparr>" "-40" "1/2"]
  by simp

text \<open>C9 as stated fails in its "only": at 10 Hz the step is 0, and on the empty buffer
  \<open>detectSilence\<close> returns all the same.\<close>

theorem detectSilence_terminates_counterexample:
  "windowSize 10 = 0 \<and>
   detectSilence \<lparr>channelData = [], sampleRate = 10\<rparr> (-40) (1/2) =
     Some [\<lparr>start = 0, end_time = 0, isSilent = False\<rparr>]"
  by (simp add: windowSize_def detectSilence_Nil)

section \<open>The window loop walks the fixed-size windows\<close>

lemma take_drop_nth: "i + k \<le> length xs \<Longrightarrow> take k (drop i xs) = map (nth xs) [i..<i + k]"
proof -
  assume le: "i + k \<le> length xs"
  have "take k (drop i xs) = take k (drop i (map (nth xs) [0..<length xs]))"
    by (simp add: map_nth)
  also have "\<dots> = map (nth xs) (take k (drop i [0..<length xs]))"
    by (simp only: drop_map take_map)
  also have "take k (drop i [0..<length xs]) = [i..<i + k]"
    using le by (simp add: drop_upt take_upt)
  finally show ?thesis .
qed

lemma window_rms_spec:
  assumes "i < length rawData"
  shows "window_rms rawData i (min (i + ws) (length rawData)) =
         spec_rms (take ws (drop i rawData))"
proof -
  let ?e = "min (i + ws) (length rawData)"
  have "take ws (drop i rawData) = take (?e - i) (drop i rawData)"
    by (cases "i + ws \<le> length rawData") (simp_all add: min_def)
  also have "\<dots> = map (nth rawData) [i..<i + (?e - i)]"
    using assms by (intro take_drop_nth) simp
  also have "i + (?e - i) = ?e" using assms by simp
  finally have t: "take ws (drop i rawData) = map (nth rawData) [i..<?e]" .
  show ?thesis
    unfolding t window_rms_def spec_rms_def by (simp add: comp_def)
qed

lemma window_loop_walk:
  "0 < ws \<Longrightarrow>
   window_loop rawData sr th ws (k * ws) st =
     Some (foldl (\<lambda>st (k, w). run_update sr (k * ws) (spec_rms w < th) st) st
            (enumerate k (spec_windows ws (drop (k * ws) rawData))))"
proof (induction "length rawData - k * ws" arbitrary: k st rule: less_induct)
  case less
  show ?case
  proof (cases "k * ws < length rawData")
    case True
    then have d: "length rawData - Suc k * ws < length rawData - k * ws"
      using less.prems by simp
    have ne: "drop (k * ws) rawData \<noteq> []" using True by simp
    have step: "window_step rawData sr th ws (k * ws) st =
          run_update sr (k * ws) (spec_rms (take ws (drop (k * ws) rawData)) < th) st"
      by (simp add: window_step_def Let_def window_rms_spec[OF True])
    have "window_loop rawData sr th ws (k * ws) st =
          window_loop rawData sr th ws (Suc k * ws) (window_step rawData sr th ws (k * ws) st)"
      by (subst window_loop.simps) (simp add: True add.commute)
    also note less.hyps[OF d less.prems]
    finally show ?thesis
      using less.prems ne
      by (subst spec_windows.simps) (simp add: step add.commute)
  next
    case False
    then show ?thesis
      by (subst window_loop.simps, subst spec_windows.simps) simp
  qed
qed

lemma concat_spec_windows: "0 < n \<Longrightarrow> concat (spec_windows n xs) = xs"
  by (induction n xs rule: spec_windows.induct) (subst spec_windows.simps, auto)

lemma spec_windows_unfold:
  "n \<noteq> 0 \<Longrightarrow> xs \<noteq> [] \<Longrightarrow> spec_windows n xs = take n xs # spec_windows n (drop n xs)"
  by (subst spec_windows.simps) simp

lemma spec_windows_Nil: "n = 0 \<or> xs = [] \<Longrightarrow> spec_windows n xs = []"
  by (subst spec_windows.simps) simp

lemma spec_windows_length:
  "w \<in> set (spec_windows n xs) \<Longrightarrow> 1 \<le> length w \<and> length w \<le> n"
proof (induction n xs rule: spec_windows.induct)
  case (1 n xs)
  show ?case
  proof (cases "n = 0 \<or> xs = []")
    case True
    with "1.prems" show ?thesis by (simp add: spec_windows_Nil)
  next
    case False
    with "1.prems" have w: "w = take n xs \<or> w \<in> set (spec_windows n (drop n xs))"
      by (simp add: spec_windows_unfold)
    from w show ?thesis
    proof
      assume "w = take n xs"
      with False show ?thesis by (cases xs) (auto simp: min_def)
    next
      assume "w \<in> set (spec_windows n (drop n xs))"
      with "1.IH" False show ?thesis by simp
    qed
  qed
qed

lemma spec_windows_full: "w \<in> set (butlast (spec_windows n xs)) \<Longrightarrow> length w = n"
proof (induction n xs rule: spec_windows.induct)
  case (1 n xs)
  show ?case
  proof (cases "n = 0 \<or> xs = []")
    case True
    with "1.prems" show ?thesis by (simp add: spec_windows_Nil)
  next
    case False
    with "1.prems"
    have w: "w \<in> set (butlast (take n xs # spec_windows n (drop n xs)))"
      by (simp add: spec_windows_unfold)
    show ?thesis
    proof (cases "drop n xs = []")
      case True
      with w show ?thesis by (simp add: spec_windows_Nil)
    next
      case d: False
      then have full: "length (take n xs) = n" by simp
      from d False have "spec_windows n (drop n xs) \<noteq> []" by (simp add: spec_windows_unfold)
      with w have "w = take n xs \<or> w \<in> set (butlast (spec_windows n (drop n xs)))"
        by simp
      with full "1.IH" False show ?thesis by auto
    qed
  qed
qed

lemma threshold_minus_40: "(10::real) powr (- 2) = 1 / 100"
  by (simp add: powr_neg_numeral)

lemma window_sizes:
  "windowSize 22050 = 1102 \<and> spec_windowSize 22050 = 1103 \<and>
   windowSize 30 = 1 \<and> spec_windowSize 30 = 2"
  by (simp add: windowSize_def spec_windowSize_def round_def)

lemma rms_half_loud: "\<not> sqrt (1 / 2) < 1 / 100"
proof -
  have "1 / 100 \<le> sqrt (1 / 2)" by (rule real_le_rsqrt) (simp add: power2_eq_square)
  then show ?thesis by simp
qed

lemma detectSilence_two_samples:
  "detectSilence \<lparr>channelData = [1, 0], sampleRate = 30\<rparr> (-40) 0 =
     Some [\<lparr>start = 0, end_time = 1 / 30, isSilent = False\<rparr>,
           \<lparr>start = 1 / 30, end_time = 2 / 30, isSilent = True\<rparr>]"
  by (simp add: detectSilence_def windowSize_def window_loop.simps window_step_def
      window_rms_def run_update_def threshold_minus_40 Let_def)

lemma windowed_detect_two_samples:
  "windowed_detect 2 \<lparr>channelData = [1, 0], sampleRate = 30\<rparr> (-40) 0 =
     [\<lparr>start = 0, end_time = 2 / 30, isSilent = False\<rparr>]"
  using rms_half_loud
  by (simp add: windowed_detect_def window_sizes spec_windows.simps enumerate_eq_zip
      spec_rms_def run_update_def threshold_minus_40 Let_def)

text \<open>
  C2 (as the code has it). \<open>detectSilence\<close> cuts the sample buffer into consecutive windows
  of exactly \<open>floor(sampleRate * 0.05)\<close> samples, only the last window being allowed to be
  shorter, and a window is silent iff its RMS is strictly below \<open>10 ^ (thresholdDb / 20)\<close>:
  the loop of the source computes what the detector over these windows computes, the
  windows concatenate to the buffer, every window but the last has the full length, and
  no window is empty or longer.
\<close>

theorem detectSilence_windows:
  assumes "1 \<le> windowSize (sampleRate b)"
  shows "detectSilence b db m = Some (windowed_detect (windowSize (sampleRate b)) b db m) \<and>
         concat (spec_windows (windowSize (sampleRate b)) (channelData b)) = channelData b \<and>
         (\<forall>w \<in> set (butlast (spec_windows (windowSize (sampleRate b)) (channelData b))).
            length w = windowSize (sampleRate b)) \<and>
         (\<forall>w \<in> set (spec_windows (windowSize (sampleRate b)) (channelData b)).
            1 \<le> length w \<and> length w \<le> windowSize (sampleRate b))"
proof -
  have ws: "0 < windowSize (sampleRate b)" using assms by simp
  have "detectSilence b db m = Some (windowed_detect (windowSize (sampleRate b)) b db m)"
    using window_loop_walk[OF ws, of "channelData b" "sampleRate b" _ 0]
    by (simp add: detectSilence_def windowed_detect_def Let_def)
  moreover
  have "concat (spec_windows (windowSize (sampleRate b)) (channelData b)) = channelData b"
    by (rule concat_spec_windows[OF ws])
  moreover
  have "\<forall>w \<in> set (butlast (spec_windows (windowSize (sampleRate b)) (channelData b))).
            length w = windowSize (sampleRate b)"
    by (intro ballI) (rule spec_windows_full)
  moreover
  have "\<forall>w \<in> set (spec_windows (windowSize (sampleRate b)) (channelData b)).
            1 \<le> length w \<and> length w \<le> windowSize (sampleRate b)"
    by (intro ballI) (rule spec_windows_length)
  ultimately show ?thesis by (intro conjI)
qed

theorem detectSilence_windows_witness:
  "1 \<le> windowSize (sampleRate \<lparr>channelData = [1, 0, 0], sampleRate = 40\<rparr>) \<and>
   detectSilence \<lparr>channelData = [1, 0, 0], sampleRate = 40\<rparr> (-40) 0 =
     Some (windowed_detect 2 \<lparr>channelData = [1, 0, 0], sampleRate = 40\<rparr> (-40) 0) \<and>
   spec_windows 2 [1, 0, 0 :: real] = [[1, 0], [0]]"
  using detectSilence_windows[of "\<lparr>channelData = [1, 0, 0], sampleRate = 40\<rparr>" "-40" 0]
  by (simp add: windowSize_def spec_windows.simps)

text \<open>C2 as stated fails: at 22050 Hz the window has 1102 samples where
  \<open>round(sampleRate * 0.05)\<close> is 1103, and at 30 Hz the two-sample buffer \<open>[1, 0]\<close> is cut
  into two windows of one sample, where one window of \<open>round(1.5) = 2\<close> samples would give
  a single active segment.\<close>

theorem detectSilence_windows_counterexample:
  "windowSize 22050 = 1102 \<and> spec_windowSize 22050 = 1103 \<and>
   detectSilence \<lparr>channelData = [1, 0], sampleRate = 30\<rparr> (-40) 0 \<noteq>
     Some (windowed_detect (spec_windowSize 30)
             \<lparr>channelData = [1, 0], sampleRate = 30\<rparr> (-40) 0)"
  by (simp add: window_sizes detectSilence_two_samples windowed_detect_two_samples)

section \<open>Claims about the trim filter and the final duration\<close>

lemma addActive_mono:
  "d \<le> d' \<Longrightarrow> a' \<le> a \<Longrightarrow> b \<le> b' \<Longrightarrow> addActive a b d s \<le> addActive a' b' d' s"
  by (auto simp: addActive_def Let_def min_def max_def)

lemma foldl_addActive_mono:
  "d \<le> d' \<Longrightarrow> a' \<le> a \<Longrightarrow> b \<le> b' \<Longrightarrow>
   foldl (addActive a b) d segs \<le> foldl (addActive a' b') d' segs"
  by (induction segs arbitrary: d d') (simp_all add: addActive_mono)

lemma addActive_inverted: "b \<le> a \<Longrightarrow> addActive a b d s = d"
  by (auto simp: addActive_def Let_def min_def max_def)

lemma foldl_addActive_inverted: "b \<le> a \<Longrightarrow> foldl (addActive a b) d segs = d"
  by (induction segs arbitrary: d) (simp_all add: addActive_inverted)

lemma calculateFinalDuration_inverted:
  "tEnd \<le> tStart \<Longrightarrow> calculateFinalDuration segs tStart tEnd = 0"
  by (simp add: calculateFinalDuration_def foldl_addActive_inverted)

text \<open>
  C7. For every segment list, the final duration computed by \<open>calculateFinalDuration\<close> does
  not decrease when the trim range widens: with \<open>tStart' \<le> tStart\<close> and \<open>tEnd \<le> tEnd'\<close>, the
  duration for \<open>(tStart', tEnd')\<close> is at least the duration for \<open>(tStart, tEnd)\<close>.
\<close>

theorem calculateFinalDuration_mono:
  "tStart' \<le> tStart \<Longrightarrow> tEnd \<le> tEnd' \<Longrightarrow>
   calculateFinalDuration segs tStart tEnd \<le> calculateFinalDuration segs tStart' tEnd'"
  unfolding calculateFinalDuration_def by (rule foldl_addActive_mono) simp_all

theorem calculateFinalDuration_mono_witness:
  "(0::rat) \<le> 1 \<and> (5::rat) \<le> 10 \<and>
   calculateFinalDuration
     [\<lparr>start = 0, end_time = 2, isSilent = False\<rparr>, \<lparr>start = 2, end_time = 3, isSilent = True\<rparr>,
      \<lparr>start = 3, end_time = 10, isSilent = False\<rparr>] 1 5
   \<le> calculateFinalDuration
     [\<lparr>start = 0, end_time = 2, isSilent = False\<rparr>, \<lparr>start = 2, end_time = 3, isSilent = True\<rparr>,
      \<lparr>start = 3, end_time = 10, isSilent = False\<rparr>] 0 10"
  using calculateFinalDuration_mono[of 0 1 5 10
      "[\<lparr>start = 0, end_time = 2, isSilent = False\<rparr>, \<lparr>start = 2, end_time = 3, isSilent = True\<rparr>,
        \<lparr>start = 3, end_time = 10, isSilent = False\<rparr>]"]
  by simp

section \<open>Evaluating the script generator\<close>

lemma natToString_digit: "n < 10 \<Longrightarrow> natToString n = [''0123456789'' ! n]"
  by (subst natToString.simps) simp

lemma natToString_10000: "natToString 10000 = ''10000''"
  by (simp add: natToString.simps)

lemma floor_half: "\<lfloor>1 / 2 :: rat\<rfloor> = 0"
  by (rule floor_unique) simp_all

lemma floor_10000_half: "\<lfloor>20001 / 2 :: rat\<rfloor> = 10000"
  by (rule floor_unique) simp_all

lemma replicate_small:
  "replicate 1 c = [c]" "replicate 2 c = [c, c]" "replicate 3 c = [c, c, c]"
  "replicate 4 c = [c, c, c, c]"
  by (simp_all add: eval_nat_numeral)

lemma natToString_20000: "natToString 20000 = ''20000''"
  by (simp add: natToString.simps)


lemma natToString_50000: "natToString 50000 = ''50000''"
  by (simp add: natToString.simps)

lemma floor_20000_half: "\<lfloor>40001 / 2 :: rat\<rfloor> = 20000"
  by (rule floor_unique) simp_all


lemma floor_50000_half: "\<lfloor>100001 / 2 :: rat\<rfloor> = 50000"
  by (rule floor_unique) simp_all

lemma toFixed4_minus_2: "toFixed4 (- 2) = ''-2.0000''"
  by (simp add: toFixed4_def floor_20000_half natToString_20000)


lemma toFixed4_5: "toFixed4 5 = ''5.0000''"
  by (simp add: toFixed4_def floor_50000_half natToString_50000)

lemma toFixed4_0: "toFixed4 0 = ''0.0000''"
  by (simp add: toFixed4_def floor_half natToString_digit replicate_small)

lemma toFixed4_1: "toFixed4 1 = ''1.0000''"
  by (simp add: toFixed4_def floor_10000_half natToString_10000)

text \<open>Where the manifest entry names the file of the extract command: always in the
  \<open>unix\<close> dialect, and in the \<open>win\<close> dialect for the formats with video.\<close>

lemma fileListEntry_segName:
  "p = Unix \<or> \<not> isAudioOnlyFormat ext \<Longrightarrow>
   fileListEntry p ext k = ''file '' @ [squote] @ segName ext k @ [squote] @ [newline]"
  by (auto simp: fileListEntry_def segName_def)








section \<open>Claims about generateFfmpegScript\<close>

text \<open>
  C4, evaluated where it fails. For the active segment \<open>[0, 10)\<close> and the trim range from
  5 to 3, \<open>calculateFinalDuration\<close> gives 0, since it adds a clipped segment only when
  \<open>end > start\<close>. The trim filter of \<open>generateFfmpegScript\<close> has no such guard: the segment
  is neither before the range nor after it, so the active list is not empty but holds the
  segment clipped to \<open>start = 5\<close>, \<open>end = 3\<close>, and the script extracts it with the duration
  \<open>-2.0000\<close>.
\<close>

theorem inverted_trim_script:
  "calculateFinalDuration [\<lparr>start = 0, end_time = 10, isSilent = False\<rparr>] 5 3 = 0 \<and>
   activeSegments [\<lparr>start = 0, end_time = 10, isSilent = False\<rparr>]
     \<lparr>format = ''mp4'', trimStart = 5, trimEnd = 3, bgMusicName = None\<rparr> =
   [\<lparr>start = 5, end_time = 3, isSilent = False\<rparr>] \<and>
   generateFfmpegScript [\<lparr>start = 0, end_time = 10, isSilent = False\<rparr>] ''a.mp4'' Unix
     \<lparr>format = ''mp4'', trimStart = 5, trimEnd = 3, bgMusicName = None\<rparr> =
   ''#!/bin/bash'' @ [newline] @
   [newline] @
   ''# Process a.mp4 to a_edited.mp4'' @ [newline] @
   ''mkdir -p segments'' @ [newline] @
   ''echo '' @ [dquote] @ ''Extracting valid segments...'' @ [dquote] @ [newline] @
   [newline] @
   ''ffmpeg -y -i '' @ [dquote] @ ''a.mp4'' @ [dquote] @
     '' -ss 5.0000 -t -2.0000 -c:v libx264 -preset ultrafast -c:a aac '' @
     [dquote] @ ''segments/part_0000.mp4'' @ [dquote] @ [newline] @
   [newline] @
   ''echo '' @ [dquote] @ ''file '' @ [squote] @ ''part_0000.mp4'' @ [squote] @ [newline] @
     [dquote] @ '' > segments/list.txt'' @ [newline] @
   [newline] @
   ''echo '' @ [dquote] @ ''Concatenating...'' @ [dquote] @ [newline] @
   ''ffmpeg -y -f concat -safe 0 -i segments/list.txt -c copy '' @
     [dquote] @ ''a_edited.mp4'' @ [dquote] @ [newline] @
   [newline] @
   ''echo '' @ [dquote] @ ''Done! Saved to a_edited.mp4'' @ [dquote] @ [newline] @
   ''rm -rf segments'' @ [newline]"
proof -
  have "calculateFinalDuration [\<lparr>start = 0, end_time = 10, isSilent = False\<rparr>] 5 3 = 0"
    by (simp add: calculateFinalDuration_def addActive_def)
  moreover
  have "activeSegments [\<lparr>start = 0, end_time = 10, isSilent = False\<rparr>]
     \<lparr>format = ''mp4'', trimStart = 5, trimEnd = 3, bgMusicName = None\<rparr> =
   [\<lparr>start = 5, end_time = 3, isSilent = False\<rparr>]"
    by (simp add: activeSegments_def)
  ultimately show ?thesis
    by (simp add: generateFfmpegScript_def stripExtension_def isWhitespace_def
      hasBgMusic_def isAudioOnlyFormat_def codecSelection_def extractCommand_def
      fileListEntry_def segName_def padStart4_def natToString_digit replicate_small
      toFixed4_5 toFixed4_minus_2 enumerate_eq_zip Let_def squote_def newline_def dquote_def
      backslash_def escapeName_def backtick_def)
qed

text \<open>
  C5 (as the code has it). The codec selection covers each of the six export formats
  \<open>mp4\<close>, \<open>mov\<close>, \<open>avi\<close>, \<open>mp3\<close>, \<open>wav\<close>, \<open>aac\<close>, and script generation has no error path: for
  any other format value it falls back to the default pair \<open>libx264\<close> / \<open>aac\<close> with video,
  and it returns a script text for every input.
\<close>

theorem codec_selection_default:
  "codecSelection ''mp4'' = (''libx264'', ''aac'') \<and>
   codecSelection ''mov'' = (''libx264'', ''aac'') \<and>
   codecSelection ''avi'' = (''mpeg4'', ''aac'') \<and>
   codecSelection ''mp3'' = (''null'', ''libmp3lame'') \<and>
   codecSelection ''wav'' = (''null'', ''pcm_s16le'') \<and>
   codecSelection ''aac'' = (''null'', ''aac'') \<and>
   (ext \<notin> set [''mp4'', ''mov'', ''avi'', ''mp3'', ''wav'', ''aac''] \<longrightarrow>
      codecSelection ext = (''libx264'', ''aac'') \<and> \<not> isAudioOnlyFormat ext) \<and>
   generateFfmpegScript segs filename p config \<noteq> []"
proof -
  have "generateFfmpegScript segs filename p config \<noteq> []"
    by (cases p) (simp_all add: generateFfmpegScript_def Let_def)
  then show ?thesis
    by (simp add: codecSelection_def isAudioOnlyFormat_def)
qed

theorem codec_selection_default_witness:
  "''mkv'' \<notin> set [''mp4'', ''mov'', ''avi'', ''mp3'', ''wav'', ''aac''] \<and>
   codecSelection ''mkv'' = (''libx264'', ''aac'') \<and> \<not> isAudioOnlyFormat ''mkv''"
  using codec_selection_default[of "''mkv''"] by simp

text \<open>C5 as stated fails: for the format \<open>mkv\<close>, which the codec selection does not name,
  a complete script comes back, with the default codecs in the extract command.\<close>

theorem unsupported_format_counterexample:
  "generateFfmpegScript [\<lparr>start = 0, end_time = 1, isSilent = False\<rparr>] ''a.mp4'' Unix
     \<lparr>format = ''mkv'', trimStart = 0, trimEnd = 1, bgMusicName = None\<rparr> =
   ''#!/bin/bash'' @ [newline] @
   [newline] @
   ''# Process a.mp4 to a_edited.mkv'' @ [newline] @
   ''mkdir -p segments'' @ [newline] @
   ''echo '' @ [dquote] @ ''Extracting valid segments...'' @ [dquote] @ [newline] @
   [newline] @
   ''ffmpeg -y -i '' @ [dquote] @ ''a.mp4'' @ [dquote] @
     '' -ss 0.0000 -t 1.0000 -c:v libx264 -preset ultrafast -c:a aac '' @
     [dquote] @ ''segments/part_0000.mp4'' @ [dquote] @ [newline] @
   [newline] @
   ''echo '' @ [dquote] @ ''file '' @ [squote] @ ''part_0000.mp4'' @ [squote] @ [newline] @
     [dquote] @ '' > segments/list.txt'' @ [newline] @
   [newline] @
   ''echo '' @ [dquote] @ ''Concatenating...'' @ [dquote] @ [newline] @
   ''ffmpeg -y -f concat -safe 0 -i segments/list.txt -c copy '' @
     [dquote] @ ''a_edited.mkv'' @ [dquote] @ [newline] @
   [newline] @
   ''echo '' @ [dquote] @ ''Done! Saved to a_edited.mkv'' @ [dquote] @ [newline] @
   ''rm -rf segments'' @ [newline]"
  by (simp add: generateFfmpegScript_def activeSegments_def stripExtension_def isWhitespace_def
      hasBgMusic_def isAudioOnlyFormat_def codecSelection_def extractCommand_def
      fileListEntry_def segName_def padStart4_def natToString_digit replicate_small
      toFixed4_0 toFixed4_1 enumerate_eq_zip Let_def squote_def newline_def dquote_def
      backslash_def escapeName_def backtick_def)

text \<open>
  C6, evaluated where it fails. In the \<open>win\<close> dialect with the audio-only format \<open>mp3\<close>,
  the extract command writes \<open>segments\part_0000.mp3\<close>, and the concat manifest lists
  \<open>part_0000.mp4\<close>: the \<open>win\<close> branch writes the extension \<open>.mp4\<close> into the manifest whatever
  the format, where the \<open>unix\<close> branch writes the name of the extract command.
\<close>

theorem win_manifest_extension:
  "generateFfmpegScript [\<lparr>start = 0, end_time = 1, isSilent = False\<rparr>] ''a.mp4'' Win
     \<lparr>format = ''mp3'', trimStart = 0, trimEnd = 1, bgMusicName = None\<rparr> =
   ''@echo off'' @ [newline] @
   ''REM Process a.mp4 to a_edited.mp3'' @ [newline] @
   ''mkdir segments'' @ [newline] @
   ''echo Extracting valid segments...'' @ [newline] @
   [newline] @
   ''ffmpeg -y -i '' @ [dquote] @ ''a.mp4'' @ [dquote] @
     '' -ss 0.0000 -t 1.0000 -vn -c:a libmp3lame '' @
     [dquote] @ ''segments'' @ [backslash] @ ''part_0000.mp3'' @ [dquote] @ [newline] @
   [newline] @
   ''( '' @ [newline] @
   ''echo file '' @ [squote] @ ''part_0000.mp4'' @ [squote] @ [newline] @
   '') > segments'' @ [backslash] @ ''list.txt'' @ [newline] @
   [newline] @
   ''echo Concatenating...'' @ [newline] @
   ''ffmpeg -y -f concat -safe 0 -i segments'' @ [backslash] @ ''list.txt -c copy '' @
     [dquote] @ ''a_edited.mp3'' @ [dquote] @ [newline] @
   ''echo Done! Saved to a_edited.mp3'' @ [newline] @
   ''rmdir /s /q segments'' @ [newline] @
   ''pause'' @ [newline]"
  by (simp add: generateFfmpegScript_def activeSegments_def stripExtension_def isWhitespace_def
      hasBgMusic_def isAudioOnlyFormat_def codecSelection_def extractCommand_def
      fileListEntry_def segName_def padStart4_def natToString_digit replicate_small
      toFixed4_0 toFixed4_1 enumerate_eq_zip Let_def squote_def newline_def dquote_def
      backslash_def)




section \<open>Claims about analyzeContent\<close>

text \<open>
  C8. \<open>analyzeContent\<close> never passes an error to its caller: its promise is always
  fulfilled. On any failure inside the \<open>try\<close> block (missing API key, failed request,
  response that does not parse) the result is the placeholder, whose tags are exactly
  \<open>["error", "offline"]\<close> and whose \<open>viralScore\<close> is 0; it is a value of the result type,
  with the four fields of a successful analysis.
\<close>

theorem analyzeContent_never_fails:
  "(\<exists>r. analyzeContent env filename context = Inr r) \<and>
   (\<forall>e. analyzeContent_try env filename context = Inl e \<longrightarrow>
      analyzeContent env filename context = Inr fallbackResult) \<and>
   (getGeminiClient env = Inl ApiKeyNotFound \<longrightarrow>
      analyzeContent env filename context = Inr fallbackResult) \<and>
   tags fallbackResult = [''error'', ''offline''] \<and> viralScore fallbackResult = 0"
  by (auto simp: analyzeContent_def analyzeContent_try_def fallbackResult_def split: sum.splits)

theorem analyzeContent_never_fails_witness:
  "analyzeContent_try
     \<lparr>apiKey = None, generateContent = (\<lambda>k p. Inl (RequestFailed ''offline'')),
      jsonParse = (\<lambda>t. None)\<rparr> ''clip.mp4'' None = Inl ApiKeyNotFound \<and>
   analyzeContent
     \<lparr>apiKey = None, generateContent = (\<lambda>k p. Inl (RequestFailed ''offline'')),
      jsonParse = (\<lambda>t. None)\<rparr> ''clip.mp4'' None = Inr fallbackResult \<and>
   analyzeContent
     \<lparr>apiKey = Some ''key'', generateContent = (\<lambda>k p. Inl (RequestFailed ''offline'')),
      jsonParse = (\<lambda>t. None)\<rparr> ''clip.mp4'' None = Inr fallbackResult \<and>
   analyzeContent
     \<lparr>apiKey = Some ''key'', generateContent = (\<lambda>k p. Inr (Some ''{'')),
      jsonParse = (\<lambda>t. None)\<rparr> ''clip.mp4'' None = Inr fallbackResult"
  using analyzeContent_never_fails[of
      "\<lparr>apiKey = None, generateContent = (\<lambda>k p. Inl (RequestFailed ''offline'')),
        jsonParse = (\<lambda>t. None)\<rparr>" "''clip.mp4''" None]
    analyzeContent_never_fails[of
      "\<lparr>apiKey = Some ''key'', generateContent = (\<lambda>k p. Inl (RequestFailed ''offline'')),
        jsonParse = (\<lambda>t. None)\<rparr>" "''clip.mp4''" None]
    analyzeContent_never_fails[of
      "\<lparr>apiKey = Some ''key'', generateContent = (\<lambda>k p. Inr (Some ''{'')),
        jsonParse = (\<lambda>t. None)\<rparr>" "''clip.mp4''" None]
  by (simp add: analyzeContent_try_def getGeminiClient_def)

end
